theory Spec2Isabelle
  imports Complex_Main "HOL-Library.Sublist" "HOL-Library.Char_ord" "HOL-Library.List_Lexorder"
    "HOL-Library.Multiset"
begin

section \<open>Responses\<close>

text \<open>
  Every route handler ends in \<^verbatim>\<open>res.status(n).json(...)\<close>. A handler of the model
  returns the collection it leaves behind together with its response: \<open>Reply n payload\<close>
  for a success body sent with status \<open>n\<close>, and \<open>Failure n msg\<close> for
  \<^verbatim>\<open>res.status(n).json({ error: msg })\<close>. The error kinds of the specification are
  told apart by status: 400 validation, 404 not found, 401 invalid credentials, 423
  account locked, 500 server error.
\<close>

datatype 'a response = Reply nat 'a | Failure nat string

section \<open>The JavaScript primitives the handlers call\<close>

text \<open>
  Query-string parameters and body fields are \<open>string option\<close> values, \<open>None\<close> for
  \<^verbatim>\<open>undefined\<close>. A string is falsy exactly when it is empty.
\<close>

definition truthy :: "string option \<Rightarrow> bool" where
  "truthy v = (case v of None \<Rightarrow> False | Some s \<Rightarrow> s \<noteq> [])"

text \<open>A destructuring default \<^verbatim>\<open>{ x = d } = obj\<close> applies when the field is undefined.\<close>

definition default_to :: "'a \<Rightarrow> 'a option \<Rightarrow> 'a" where
  "default_to d v = (case v of None \<Rightarrow> d | Some x \<Rightarrow> x)"

definition is_space :: "char \<Rightarrow> bool" where
  "is_space c = ((of_char c :: nat) \<in> set [9, 10, 11, 12, 13, 32])"

definition digit_val :: "char \<Rightarrow> nat option" where
  "digit_val c =
     (let n = (of_char c :: nat)
      in if 48 \<le> n \<and> n \<le> 57 then Some (n - 48)
         else if 97 \<le> n \<and> n \<le> 122 then Some (n - 87)
         else if 65 \<le> n \<and> n \<le> 90 then Some (n - 55)
         else None)"

definition radix_digit :: "nat \<Rightarrow> char \<Rightarrow> bool" where
  "radix_digit R c = (case digit_val c of None \<Rightarrow> False | Some d \<Rightarrow> d < R)"

definition digits_value :: "nat \<Rightarrow> string \<Rightarrow> int" where
  "digits_value R ds =
     foldl (\<lambda>a c. a * int R + int (case digit_val c of None \<Rightarrow> 0 | Some d \<Rightarrow> d)) 0 ds"

text \<open>
  \<^verbatim>\<open>parseInt(s)\<close> without a radix: leading white space is skipped, a sign is read, a
  \<^verbatim>\<open>0x\<close> prefix selects radix 16, and the longest prefix of digits is the value; with
  no digit the result is \<^verbatim>\<open>NaN\<close>, here \<open>None\<close>. The value is the mathematical
  integer (a double is exact up to \<open>2^53\<close>).
\<close>

definition parseInt :: "string \<Rightarrow> int option" where
  "parseInt input =
     (let s = dropWhile is_space input;
          neg = (take 1 s = ''-'');
          s1 = (if take 1 s = ''-'' \<or> take 1 s = ''+'' then drop 1 s else s);
          hex = (take 2 s1 = ''0x'' \<or> take 2 s1 = ''0X'');
          R = (if hex then 16 else 10);
          s2 = (if hex then drop 2 s1 else s1);
          z = takeWhile (radix_digit R) s2
      in if z = [] then None
         else Some ((if neg then - 1 else 1) * digits_value R z))"

text \<open>\<^verbatim>\<open>String.prototype.trim\<close> and \<^verbatim>\<open>toLowerCase\<close>, on ASCII.\<close>

definition trim :: "string \<Rightarrow> string" where
  "trim s = rev (dropWhile is_space (rev (dropWhile is_space s)))"

definition lower_char :: "char \<Rightarrow> char" where
  "lower_char c =
     (let n = (of_char c :: nat) in if 65 \<le> n \<and> n \<le> 90 then char_of (n + 32) else c)"

definition toLowerCase :: "string \<Rightarrow> string" where
  "toLowerCase s = map lower_char s"

text \<open>Number to string, as \<^verbatim>\<open>+\<close> with a string operand converts a non-negative integer.\<close>

fun string_of_nat :: "nat \<Rightarrow> string" where
  "string_of_nat n =
     (if n < 10 then [char_of (48 + n)]
      else string_of_nat (n div 10) @ [char_of (48 + n mod 10)])"

declare string_of_nat.simps [simp del]

section \<open>The collection store\<close>

type_synonym object_id = string

text \<open>Dates are milliseconds since the epoch, as \<^verbatim>\<open>Date.now()\<close> gives them.\<close>

type_synonym date = int

text \<open>
  The store casts the \<^verbatim>\<open>:id\<close> path parameter to an ObjectId and raises
  \<^verbatim>\<open>CastError\<close> when that fails; an ObjectId is written as 24 hexadecimal digits.
\<close>

definition is_object_id :: "string \<Rightarrow> bool" where
  "is_object_id s = (length s = 24 \<and> list_all (radix_digit 16) s)"

text \<open>
  A collection is the list of its documents, in insertion order. The operations below
  are the store's, each taking the projection of a document to its \<^verbatim>\<open>_id\<close> or the
  predicate of the filter.
\<close>

definition findOne :: "('d \<Rightarrow> bool) \<Rightarrow> 'd list \<Rightarrow> 'd option" where
  "findOne p db = find p db"

definition findById :: "('d \<Rightarrow> object_id) \<Rightarrow> object_id \<Rightarrow> 'd list \<Rightarrow> 'd option" where
  "findById idf i db = findOne (\<lambda>d. idf d = i) db"

text \<open>\<^verbatim>\<open>doc.save()\<close> on a document read from the collection writes it back under its id.\<close>

definition save_doc :: "('d \<Rightarrow> object_id) \<Rightarrow> 'd \<Rightarrow> 'd list \<Rightarrow> 'd list" where
  "save_doc idf d db = map (\<lambda>x. if idf x = idf d then d else x) db"

text \<open>
  \<^verbatim>\<open>findOneAndUpdate(filter, update, { new: true })\<close>: the first matching document is
  updated in place and the updated document is returned, or null when nothing matches.
\<close>

fun findOneAndUpdate :: "('d \<Rightarrow> bool) \<Rightarrow> ('d \<Rightarrow> 'd) \<Rightarrow> 'd list \<Rightarrow> 'd list \<times> 'd option" where
  "findOneAndUpdate p f [] = ([], None)"
| "findOneAndUpdate p f (d # ds) =
     (if p d then (f d # ds, Some (f d))
      else (case findOneAndUpdate p f ds of (ds', r) \<Rightarrow> (d # ds', r)))"

text \<open>
  Field values as the store compares them when sorting. Values of different types are
  ordered by type (null, numbers, strings, ObjectIds, booleans, dates); a field a
  document lacks sorts as null. \<open>BStrs\<close> is an array of strings, which the store
  sorts by one of its elements, see \<open>sort_value\<close>; \<open>BUndefined\<close> is the sort value
  of an empty array, below null.
\<close>

datatype bson =
  BUndefined | BNull | BNum rat | BStr string | BStrs "string list" | BOid object_id
  | BBool bool | BDate date

fun bson_rank :: "bson \<Rightarrow> nat" where
  "bson_rank BUndefined = 0"
| "bson_rank BNull = 1"
| "bson_rank (BNum _) = 2"
| "bson_rank (BStr _) = 3"
| "bson_rank (BStrs _) = 5"
| "bson_rank (BOid _) = 7"
| "bson_rank (BBool _) = 8"
| "bson_rank (BDate _) = 9"

definition bson_le :: "bson \<Rightarrow> bson \<Rightarrow> bool" where
  "bson_le x y =
     (case (x, y) of
        (BNum a, BNum b) \<Rightarrow> a \<le> b
      | (BStr a, BStr b) \<Rightarrow> a \<le> b
      | (BOid a, BOid b) \<Rightarrow> a \<le> b
      | (BBool a, BBool b) \<Rightarrow> a \<le> b
      | (BDate a, BDate b) \<Rightarrow> a \<le> b
      | _ \<Rightarrow> bson_rank x \<le> bson_rank y)"

definition opt_str :: "string option \<Rightarrow> bson" where
  "opt_str v = (case v of None \<Rightarrow> BNull | Some s \<Rightarrow> BStr s)"

text \<open>
  The value a document is sorted by: an array counts as its least element in an
  ascending sort and as its greatest in a descending one, an empty array as undefined.
\<close>

fun sort_value :: "int \<Rightarrow> bson \<Rightarrow> bson" where
  "sort_value dir (BStrs []) = BUndefined"
| "sort_value dir (BStrs (x # xs)) = BStr (if dir < 0 then foldr max xs x else foldr min xs x)"
| "sort_value dir v = v"

text \<open>
  The keys the store accepts in a sort specification: a field path, dot-separated,
  with no empty part, no part that starts with \<^verbatim>\<open>$\<close> and no NUL character. The empty
  key of \<^verbatim>\<open>?sortBy=\<close> is not one: the query raises and the handler's \<^verbatim>\<open>catch\<close>
  answers 500.
\<close>

fun split_on :: "char \<Rightarrow> string \<Rightarrow> string list" where
  "split_on c [] = [[]]"
| "split_on c (x # xs) =
     (if x = c then [] # split_on c xs
      else (case split_on c xs of [] \<Rightarrow> [[x]] | p # ps \<Rightarrow> (x # p) # ps))"

definition field_path_ok :: "string \<Rightarrow> bool" where
  "field_path_ok key =
     (list_all (\<lambda>part. part \<noteq> [] \<and> take 1 part \<noteq> ''$'') (split_on CHR ''.'' key)
      \<and> list_all (\<lambda>c. (of_char c :: nat) \<noteq> 0) key)"

fun insert_by :: "('d \<Rightarrow> 'd \<Rightarrow> bool) \<Rightarrow> 'd \<Rightarrow> 'd list \<Rightarrow> 'd list" where
  "insert_by le x [] = [x]"
| "insert_by le x (y # ys) = (if le x y then x # y # ys else y # insert_by le x ys)"

definition sort_by :: "('d \<Rightarrow> 'd \<Rightarrow> bool) \<Rightarrow> 'd list \<Rightarrow> 'd list" where
  "sort_by le xs = foldr (insert_by le) xs []"

text \<open>
  The order of \<^verbatim>\<open>.sort({ [key]: dir })\<close> with \<open>dir\<close> 1 (ascending) or -1
  (descending): whether document \<open>a\<close> may stand before document \<open>b\<close>.
\<close>

definition sort_le :: "(string \<Rightarrow> 'd \<Rightarrow> bson) \<Rightarrow> string \<times> int \<Rightarrow> 'd \<Rightarrow> 'd \<Rightarrow> bool" where
  "sort_le field spec a b =
     (case spec of (key, dir) \<Rightarrow>
        if dir < 0 then bson_le (sort_value dir (field key b)) (sort_value dir (field key a))
        else bson_le (sort_value dir (field key a)) (sort_value dir (field key b)))"

text \<open>
  \<^verbatim>\<open>.sort({ [key]: dir })\<close>. The key \<^verbatim>\<open>$natural\<close> asks for the collection's own
  order or its reverse; any other key must be a field path, else the query raises
  (\<open>None\<close>); documents with equal sort values keep their order.
\<close>

definition sort_docs :: "(string \<Rightarrow> 'd \<Rightarrow> bson) \<Rightarrow> string \<times> int \<Rightarrow> 'd list \<Rightarrow> 'd list option" where
  "sort_docs field spec docs =
     (case spec of (key, dir) \<Rightarrow>
        if key = ''$natural'' then Some (if dir < 0 then rev docs else docs)
        else if \<not> field_path_ok key then None
        else Some (sort_by (sort_le field spec) docs))"

text \<open>
  \<^verbatim>\<open>.skip(n)\<close> and \<^verbatim>\<open>.limit(n)\<close>. The arguments are JavaScript numbers, \<open>None\<close>
  for \<^verbatim>\<open>NaN\<close>. The store rejects a \<^verbatim>\<open>NaN\<close> and a negative skip (the handler's
  \<^verbatim>\<open>catch\<close> then answers 500); a limit of 0 is no limit, and a negative limit is its
  absolute value.
\<close>

definition skip_docs :: "int option \<Rightarrow> 'd list \<Rightarrow> 'd list option" where
  "skip_docs n docs =
     (case n of None \<Rightarrow> None
      | Some k \<Rightarrow> if k < 0 then None else Some (drop (nat k) docs))"

definition limit_docs :: "int option \<Rightarrow> 'd list \<Rightarrow> 'd list option" where
  "limit_docs n docs =
     (case n of None \<Rightarrow> None
      | Some k \<Rightarrow> if k = 0 then Some docs else Some (take (nat \<bar>k\<bar>) docs))"

text \<open>
  A \<^verbatim>\<open>$regex\<close> condition with option \<^verbatim>\<open>i\<close> is evaluated by the store's regular
  expression engine, a parameter of the model: \<open>rx pattern\<close> is \<open>None\<close> when the
  pattern does not compile (the query fails), else the set of strings it matches.
\<close>

type_synonym regex = "string \<Rightarrow> (string \<Rightarrow> bool) option"

section \<open>Contact submissions\<close>

record contact_submission =
  cs_id :: object_id
  cs_name :: string
  cs_email :: string
  cs_phone :: "string option"
  cs_subject :: string
  cs_message :: string
  cs_read :: bool
  cs_replied :: bool
  cs_priority :: string
  cs_source :: string
  cs_createdAt :: date
  cs_updatedAt :: date

text \<open>
  \<^verbatim>\<open>PUT /api/contact-submissions/:id/replied\<close>. The body's \<^verbatim>\<open>replied\<close> is absent
  (\<open>None\<close>, defaulting to true) or a boolean. The update document is
  \<^verbatim>\<open>{ replied, read: true }\<close>; the schema's timestamps stamp \<^verbatim>\<open>updatedAt\<close>.
\<close>

definition mark_replied ::
  "date \<Rightarrow> contact_submission list \<Rightarrow> string \<Rightarrow> bool option
     \<Rightarrow> contact_submission list \<times> (string \<times> contact_submission) response" where
  "mark_replied now db i body_replied =
     (let replied = (case body_replied of None \<Rightarrow> True | Some b \<Rightarrow> b)
      in if \<not> is_object_id i then (db, Failure 400 ''Invalid submission ID'')
         else (case findOneAndUpdate (\<lambda>d. cs_id d = i)
                      (\<lambda>d. d\<lparr>cs_replied := replied, cs_read := True, cs_updatedAt := now\<rparr>) db of
                 (db', None) \<Rightarrow> (db', Failure 404 ''Contact submission not found'')
               | (db', Some submission) \<Rightarrow>
                   (db', Reply 200
                      (''Submission marked as '' @ (if replied then ''replied'' else ''not replied''),
                       submission))))"

section \<open>Testimonials\<close>

text \<open>
  The schema of \<^verbatim>\<open>models/Testimonial.js\<close>, with the \<^verbatim>\<open>_id\<close> and the two
  timestamps the store adds. \<^verbatim>\<open>rating\<close> is a \<^verbatim>\<open>Number\<close>: the schema does not
  ask for an integer.
\<close>

record testimonial =
  t_id :: object_id
  t_name :: string
  t_company :: string
  t_position :: "string option"
  t_rating :: rat
  t_testimonial :: "string option"
  t_image :: "string option"
  t_active :: bool
  t_featured :: bool
  t_projectType :: "string option"
  t_source :: string
  t_verified :: bool
  t_createdAt :: date
  t_updatedAt :: date

definition testimonial_field :: "string \<Rightarrow> testimonial \<Rightarrow> bson" where
  "testimonial_field key t =
     (if key = ''_id'' then BOid (t_id t)
      else if key = ''name'' then BStr (t_name t)
      else if key = ''company'' then BStr (t_company t)
      else if key = ''position'' then opt_str (t_position t)
      else if key = ''rating'' then BNum (t_rating t)
      else if key = ''testimonial'' then opt_str (t_testimonial t)
      else if key = ''image'' then opt_str (t_image t)
      else if key = ''active'' then BBool (t_active t)
      else if key = ''featured'' then BBool (t_featured t)
      else if key = ''projectType'' then opt_str (t_projectType t)
      else if key = ''source'' then BStr (t_source t)
      else if key = ''verified'' then BBool (t_verified t)
      else if key = ''createdAt'' then BDate (t_createdAt t)
      else if key = ''updatedAt'' then BDate (t_updatedAt t)
      else BNull)"

text \<open>The query string of the two listings (\<^verbatim>\<open>req.query\<close>).\<close>

record testimonial_params =
  tp_page :: "string option"
  tp_limit :: "string option"
  tp_active :: "string option"
  tp_featured :: "string option"
  tp_rating :: "string option"
  tp_search :: "string option"
  tp_sortBy :: "string option"
  tp_sortOrder :: "string option"

text \<open>
  The filter document \<^verbatim>\<open>query\<close> the handlers build. The rating condition is either
  the number itself (\<^verbatim>\<open>query.rating = parseInt(rating)\<close>) or
  \<^verbatim>\<open>{ $gte: parseInt(rating) }\<close>; the number may be \<^verbatim>\<open>NaN\<close>. \<open>tf_search\<close> stands
  for the \<^verbatim>\<open>$or\<close> of the three \<^verbatim>\<open>$regex\<close> conditions on name, company and
  testimonial.
\<close>

datatype rating_cond = RatingIs "int option" | RatingGte "int option"

record testimonial_filter =
  tf_active :: "bool option"
  tf_featured :: "bool option"
  tf_rating :: "rating_cond option"
  tf_search :: "string option"

definition admin_query :: "testimonial_params \<Rightarrow> testimonial_filter" where
  "admin_query q =
     \<lparr>tf_active = map_option (\<lambda>s. s = ''true'') (tp_active q),
      tf_featured = map_option (\<lambda>s. s = ''true'') (tp_featured q),
      tf_rating = (if truthy (tp_rating q)
                   then Some (RatingIs (parseInt (default_to [] (tp_rating q)))) else None),
      tf_search = (if truthy (tp_search q) then tp_search q else None)\<rparr>"

definition public_query :: "testimonial_params \<Rightarrow> testimonial_filter" where
  "public_query q =
     \<lparr>tf_active = Some True,
      tf_featured = map_option (\<lambda>s. s = ''true'') (tp_featured q),
      tf_rating = (if truthy (tp_rating q)
                   then Some (RatingGte (parseInt (default_to [] (tp_rating q)))) else None),
      tf_search = None\<rparr>"

text \<open>
  How the store reads the filter. Casting a \<^verbatim>\<open>NaN\<close> to the schema's
  \<^verbatim>\<open>Number\<close> fails, and so does a pattern that does not compile: the query then
  raises and the result is \<open>None\<close>.
\<close>

definition rating_pred :: "rating_cond option \<Rightarrow> (rat \<Rightarrow> bool) option" where
  "rating_pred c =
     (case c of
        None \<Rightarrow> Some (\<lambda>r. True)
      | Some (RatingIs None) \<Rightarrow> None
      | Some (RatingIs (Some n)) \<Rightarrow> Some (\<lambda>r. r = of_int n)
      | Some (RatingGte None) \<Rightarrow> None
      | Some (RatingGte (Some n)) \<Rightarrow> Some (\<lambda>r. of_int n \<le> r))"

definition search_pred :: "regex \<Rightarrow> string option \<Rightarrow> (testimonial \<Rightarrow> bool) option" where
  "search_pred rx s =
     (case s of
        None \<Rightarrow> Some (\<lambda>t. True)
      | Some pat \<Rightarrow>
          (case rx pat of
             None \<Rightarrow> None
           | Some m \<Rightarrow> Some (\<lambda>t. m (t_name t) \<or> m (t_company t)
                                 \<or> (case t_testimonial t of None \<Rightarrow> False | Some x \<Rightarrow> m x))))"

definition flag_pred :: "bool option \<Rightarrow> bool \<Rightarrow> bool" where
  "flag_pred c v = (case c of None \<Rightarrow> True | Some b \<Rightarrow> v = b)"

definition testimonial_find ::
  "regex \<Rightarrow> testimonial_filter \<Rightarrow> testimonial list \<Rightarrow> testimonial list option" where
  "testimonial_find rx f db =
     (case rating_pred (tf_rating f) of
        None \<Rightarrow> None
      | Some rp \<Rightarrow>
          (case search_pred rx (tf_search f) of
             None \<Rightarrow> None
           | Some sp \<Rightarrow>
               Some (filter (\<lambda>t. flag_pred (tf_active f) (t_active t)
                                 \<and> flag_pred (tf_featured f) (t_featured t)
                                 \<and> rp (t_rating t) \<and> sp t) db)))"

definition sort_spec :: "string option \<Rightarrow> string option \<Rightarrow> string \<times> int" where
  "sort_spec sortBy sortOrder =
     (default_to ''createdAt'' sortBy, if default_to ''desc'' sortOrder = ''desc'' then - 1 else 1)"

text \<open>
  \<^verbatim>\<open>GET /api/testimonials/all\<close>, the admin listing: find, sort, limit, skip; the
  array is the response body.
\<close>

definition get_testimonials_all ::
  "regex \<Rightarrow> testimonial list \<Rightarrow> testimonial_params \<Rightarrow> testimonial list response" where
  "get_testimonials_all rx db q =
     (let query = admin_query q;
          page = parseInt (default_to ''1'' (tp_page q));
          limit = parseInt (default_to ''20'' (tp_limit q));
          sort = sort_spec (tp_sortBy q) (tp_sortOrder q);
          skip = (case (page, limit) of (Some p, Some l) \<Rightarrow> Some ((p - 1) * l) | _ \<Rightarrow> None)
      in case testimonial_find rx query db of
           None \<Rightarrow> Failure 500 ''Failed to fetch testimonials''
         | Some found \<Rightarrow>
             (case sort_docs testimonial_field sort found of
                None \<Rightarrow> Failure 500 ''Failed to fetch testimonials''
              | Some ordered \<Rightarrow>
                  (case skip_docs skip ordered of
                     None \<Rightarrow> Failure 500 ''Failed to fetch testimonials''
                   | Some rest \<Rightarrow>
                       (case limit_docs limit rest of
                          None \<Rightarrow> Failure 500 ''Failed to fetch testimonials''
                        | Some testimonials \<Rightarrow> Reply 200 testimonials))))"

text \<open>\<^verbatim>\<open>GET /api/testimonials\<close>, the public listing: the query starts from
  \<^verbatim>\<open>{ active: true }\<close>; there is no skip.\<close>

definition get_testimonials ::
  "regex \<Rightarrow> testimonial list \<Rightarrow> testimonial_params \<Rightarrow> testimonial list response" where
  "get_testimonials rx db q =
     (let query = public_query q;
          limit = parseInt (default_to ''10'' (tp_limit q));
          sort = sort_spec (tp_sortBy q) (tp_sortOrder q)
      in case testimonial_find rx query db of
           None \<Rightarrow> Failure 500 ''Failed to fetch testimonials''
         | Some found \<Rightarrow>
             (case sort_docs testimonial_field sort found of
                None \<Rightarrow> Failure 500 ''Failed to fetch testimonials''
              | Some ordered \<Rightarrow>
                  (case limit_docs limit ordered of
                     None \<Rightarrow> Failure 500 ''Failed to fetch testimonials''
                   | Some testimonials \<Rightarrow> Reply 200 testimonials)))"

text \<open>
  The body of \<^verbatim>\<open>POST /api/testimonials\<close>: strings, a JSON number for the rating,
  booleans for the flags, each possibly absent.
\<close>

record testimonial_body =
  tb_name :: "string option"
  tb_company :: "string option"
  tb_position :: "string option"
  tb_rating :: "rat option"
  tb_testimonial :: "string option"
  tb_image :: "string option"
  tb_active :: "bool option"
  tb_featured :: "bool option"
  tb_projectType :: "string option"
  tb_source :: "string option"
  tb_verified :: "bool option"

text \<open>
  \<^verbatim>\<open>new Testimonial({...})\<close> applies the schema's \<^verbatim>\<open>trim\<close> setters, and
  \<^verbatim>\<open>save()\<close> validates before it inserts: required strings are not empty, the
  rating lies between \<^verbatim>\<open>min: 1\<close> and \<^verbatim>\<open>max: 5\<close>, the source is one of the
  enumeration.
\<close>

definition new_testimonial ::
  "date \<Rightarrow> object_id \<Rightarrow> string \<Rightarrow> string \<Rightarrow> rat \<Rightarrow> testimonial_body \<Rightarrow> testimonial" where
  "new_testimonial now oid name company rating b =
     \<lparr>t_id = oid,
      t_name = trim name,
      t_company = trim company,
      t_position = map_option trim (tb_position b),
      t_rating = rating,
      t_testimonial = map_option trim (tb_testimonial b),
      t_image = tb_image b,
      t_active = default_to True (tb_active b),
      t_featured = default_to False (tb_featured b),
      t_projectType = map_option trim (tb_projectType b),
      t_source = default_to ''website'' (tb_source b),
      t_verified = default_to False (tb_verified b),
      t_createdAt = now,
      t_updatedAt = now\<rparr>"

definition testimonial_valid :: "testimonial \<Rightarrow> bool" where
  "testimonial_valid t =
     (t_name t \<noteq> [] \<and> t_company t \<noteq> [] \<and> 1 \<le> t_rating t \<and> t_rating t \<le> 5
      \<and> t_source t \<in> set [''website'', ''email'', ''phone'', ''social'', ''referral''])"

text \<open>
  \<^verbatim>\<open>POST /api/testimonials\<close>. \<open>oid\<close> is the id the store generates for the new
  document. \<^verbatim>\<open>!rating\<close> holds for an absent rating and for 0.
\<close>

definition create_testimonial ::
  "date \<Rightarrow> object_id \<Rightarrow> testimonial list \<Rightarrow> testimonial_body
     \<Rightarrow> testimonial list \<times> (string \<times> testimonial) response" where
  "create_testimonial now oid db b =
     (case (tb_name b, tb_company b, tb_rating b) of
        (Some name, Some company, Some rating) \<Rightarrow>
          if name = [] \<or> company = [] \<or> rating = 0
          then (db, Failure 400 ''Missing required fields: name, company, and rating are required'')
          else if rating < 1 \<or> rating > 5
          then (db, Failure 400 ''Rating must be between 1 and 5'')
          else (let newTestimonial = new_testimonial now oid name company rating b
                in if testimonial_valid newTestimonial
                   then (db @ [newTestimonial],
                         Reply 201 (''Testimonial created successfully'', newTestimonial))
                   else (db, Failure 500 ''Failed to create testimonial''))
      | _ \<Rightarrow> (db, Failure 400 ''Missing required fields: name, company, and rating are required''))"

section \<open>Newsletter subscribers and uploads\<close>

text \<open>
  The subscriber schema: \<^verbatim>\<open>email\<close> is required, unique, trimmed and lower-cased;
  \<^verbatim>\<open>unsubscribedAt\<close> is a date or absent.
\<close>

record subscriber =
  ns_id :: object_id
  ns_email :: string
  ns_name :: "string option"
  ns_unsubscribed :: bool
  ns_unsubscribedAt :: "date option"
  ns_source :: string
  ns_frequency :: string
  ns_categories :: "string list"
  ns_createdAt :: date
  ns_updatedAt :: date

text \<open>
  The schema's setters on \<^verbatim>\<open>email\<close>. The store applies them to the documents it
  writes and to the value of a query filter on that path.
\<close>

definition email_setters :: "string \<Rightarrow> string" where
  "email_setters e = toLowerCase (trim e)"

definition find_subscriber :: "string \<Rightarrow> subscriber list \<Rightarrow> subscriber option" where
  "find_subscriber email db = findOne (\<lambda>d. ns_email d = email_setters email) db"

definition new_subscriber ::
  "date \<Rightarrow> object_id \<Rightarrow> string \<Rightarrow> string option \<Rightarrow> string \<Rightarrow> subscriber" where
  "new_subscriber now oid email name source =
     \<lparr>ns_id = oid,
      ns_email = email_setters email,
      ns_name = map_option trim name,
      ns_unsubscribed = False,
      ns_unsubscribedAt = None,
      ns_source = source,
      ns_frequency = ''weekly'',
      ns_categories = [],
      ns_createdAt = now,
      ns_updatedAt = now\<rparr>"

text \<open>
  \<^verbatim>\<open>POST /api/newsletter/subscribers\<close>. The body's \<^verbatim>\<open>email\<close>, \<^verbatim>\<open>name\<close> and
  \<^verbatim>\<open>source\<close> are strings or absent. Saving the existing document stamps
  \<^verbatim>\<open>updatedAt\<close>; saving a new one validates it (the email is required) and appends
  it, and a validation failure is caught and answered 500.
\<close>

definition subscribe ::
  "date \<Rightarrow> object_id \<Rightarrow> subscriber list \<Rightarrow> string option \<Rightarrow> string option \<Rightarrow> string option
     \<Rightarrow> subscriber list \<times> (string \<times> subscriber) response" where
  "subscribe now oid db email name source =
     (if \<not> truthy email then (db, Failure 400 ''Email is required'')
      else (case find_subscriber (default_to [] email) db of
              Some existingSubscriber \<Rightarrow>
                if ns_unsubscribed existingSubscriber
                then (let resubscribed = existingSubscriber
                            \<lparr>ns_unsubscribed := False, ns_unsubscribedAt := None,
                             ns_updatedAt := now\<rparr>
                      in (save_doc ns_id resubscribed db,
                          Reply 200 (''Successfully resubscribed to newsletter'', resubscribed)))
                else (db, Failure 400 ''Email is already subscribed'')
            | None \<Rightarrow>
                (let subscriber = new_subscriber now oid (default_to [] email) name
                                    (default_to ''website'' source)
                 in if ns_email subscriber = []
                    then (db, Failure 500 ''Failed to add newsletter subscriber'')
                    else (db @ [subscriber],
                          Reply 201 (''Successfully subscribed to newsletter'', subscriber)))))"

record newsletter_upload =
  nu_id :: object_id
  nu_name :: string
  nu_category :: string
  nu_date :: date
  nu_filename :: string
  nu_originalName :: string
  nu_fileSize :: "nat option"
  nu_downloadCount :: nat
  nu_active :: bool
  nu_createdAt :: date
  nu_updatedAt :: date

text \<open>
  The disk maps a path, relative to the application's root, to the bytes of the file
  there. \<^verbatim>\<open>path.join(__dirname, '..', 'uploads', 'newsletters', filename)\<close> is the
  file's path under \<^verbatim>\<open>uploads/newsletters\<close>.
\<close>

type_synonym disk = "string \<rightharpoonup> string"

definition pathExists :: "disk \<Rightarrow> string \<Rightarrow> bool" where
  "pathExists d p = (d p \<noteq> None)"

definition newsletter_path :: "string \<Rightarrow> string" where
  "newsletter_path filename = ''uploads/newsletters/'' @ filename"

text \<open>
  \<^verbatim>\<open>GET /api/newsletter/uploads/:id/download\<close>. The success response is
  \<^verbatim>\<open>res.download(filePath, originalName)\<close>, here the pair of the two. The handler
  reads the disk and never writes it, so only the collection is returned.
\<close>

definition download_newsletter ::
  "date \<Rightarrow> disk \<Rightarrow> newsletter_upload list \<Rightarrow> string
     \<Rightarrow> newsletter_upload list \<times> (string \<times> string) response" where
  "download_newsletter now files db i =
     (if \<not> is_object_id i then (db, Failure 400 ''Invalid newsletter ID'')
      else (case findById nu_id i db of
              None \<Rightarrow> (db, Failure 404 ''Newsletter not found'')
            | Some newsletter \<Rightarrow>
                (let counted = newsletter\<lparr>nu_downloadCount := nu_downloadCount newsletter + 1,
                                           nu_updatedAt := now\<rparr>;
                     db' = save_doc nu_id counted db;
                     filePath = newsletter_path (nu_filename counted)
                 in if \<not> pathExists files filePath
                    then (db', Failure 404 ''File not found'')
                    else (db', Reply 200 (filePath, nu_originalName counted)))))"

section \<open>Blogs: the image upload and the listing\<close>

text \<open>
  An incoming multipart file as the upload middleware sees it: the client's file name,
  the declared media type and the bytes.
\<close>

record upload_file =
  uf_originalname :: string
  uf_mimetype :: string
  uf_bytes :: string

text \<open>
  What a callback passes as its error: \<^verbatim>\<open>new Error(msg)\<close> from the handlers' own
  code, or the upload middleware's error with its code.
\<close>

datatype upload_error = Error string | MulterError string

text \<open>
  The \<^verbatim>\<open>fileFilter\<close> of \<^verbatim>\<open>routes/blogs.js\<close>: \<^verbatim>\<open>cb(null, true)\<close> is \<open>Inr True\<close>,
  \<^verbatim>\<open>cb(new Error(...), false)\<close> is \<open>Inl\<close> of the error.
\<close>

definition fileFilter :: "upload_file \<Rightarrow> upload_error + bool" where
  "fileFilter file =
     (if prefix ''image/'' (uf_mimetype file) then Inr True
      else Inl (Error ''Only image files are allowed!''))"

definition string_of_int :: "int \<Rightarrow> string" where
  "string_of_int i = (if i < 0 then ''-'' @ string_of_nat (nat (- i)) else string_of_nat (nat i))"

text \<open>
  The storage's \<^verbatim>\<open>filename\<close> callback. \<open>now\<close> is \<^verbatim>\<open>Date.now()\<close>, \<open>rnd\<close> the
  value of \<^verbatim>\<open>Math.round(Math.random() * 1E9)\<close>, and \<open>extname\<close> the platform's
  \<^verbatim>\<open>path.extname\<close>, a parameter.
\<close>

definition blog_filename :: "(string \<Rightarrow> string) \<Rightarrow> date \<Rightarrow> nat \<Rightarrow> upload_file \<Rightarrow> string" where
  "blog_filename extname now rnd file =
     (let uniqueSuffix = string_of_int now @ ''-'' @ string_of_nat rnd
      in ''blog-'' @ uniqueSuffix @ extname (uf_originalname file))"

record stored_file =
  sf_filename :: string
  sf_path :: string
  sf_size :: nat

text \<open>
  \<^verbatim>\<open>upload.single('image')\<close>, the middleware in front of the create and update
  routes. It runs the file filter first and hands the file to the disk storage only
  when the filter accepted it; an error from the filter ends the request (the route
  handler does not run, the application's error handler answers 500). A file over the
  \<^verbatim>\<open>fileSize\<close> limit of 10 MiB is refused with the middleware's own error and leaves
  nothing on the disk. A request without a file passes with \<^verbatim>\<open>req.file\<close> undefined.
\<close>

definition upload_single ::
  "(string \<Rightarrow> string) \<Rightarrow> date \<Rightarrow> nat \<Rightarrow> disk \<Rightarrow> upload_file option
     \<Rightarrow> disk \<times> (upload_error + stored_file option)" where
  "upload_single extname now rnd files incoming =
     (case incoming of
        None \<Rightarrow> (files, Inr None)
      | Some file \<Rightarrow>
          (case fileFilter file of
             Inl err \<Rightarrow> (files, Inl err)
           | Inr False \<Rightarrow> (files, Inr None)
           | Inr True \<Rightarrow>
               if length (uf_bytes file) > 10 * 1024 * 1024
               then (files, Inl (MulterError ''LIMIT_FILE_SIZE''))
               else (let name = blog_filename extname now rnd file;
                         uploadPath = ''uploads/blog-images/'' @ name
                     in (files(uploadPath \<mapsto> uf_bytes file),
                         Inr (Some \<lparr>sf_filename = name, sf_path = uploadPath,
                                     sf_size = length (uf_bytes file)\<rparr>)))))"

text \<open>The schema of \<^verbatim>\<open>models/Blog.js\<close>.\<close>

record blog =
  b_id :: object_id
  b_title :: string
  b_excerpt :: "string option"
  b_content :: string
  b_author :: string
  b_category :: string
  b_tags :: "string list"
  b_image :: "string option"
  b_thumbnail :: "string option"
  b_featured :: bool
  b_status :: string
  b_publishDate :: "date option"
  b_readingTime :: "string option"
  b_seoTitle :: "string option"
  b_seoDescription :: "string option"
  b_seoKeywords :: "string option"
  b_date :: "string option"
  b_views :: nat
  b_likes :: nat
  b_createdAt :: date
  b_updatedAt :: date










section \<open>Authentication: login and the lockout counter\<close>

text \<open>
  An account. The route reads \<^verbatim>\<open>_id\<close>, \<^verbatim>\<open>username\<close>, \<^verbatim>\<open>email\<close>,
  \<^verbatim>\<open>role\<close>, \<^verbatim>\<open>profile\<close>, \<^verbatim>\<open>loginAttempts\<close> and \<^verbatim>\<open>lastLogin\<close>; the
  stored secret and the lock timestamp belong to the model's methods below.
\<close>

record user =
  u_id :: object_id
  u_username :: string
  u_email :: string
  u_password :: string
  u_role :: string
  u_profile :: "string option"
  u_active :: bool
  u_loginAttempts :: nat
  u_lockedAt :: "date option"
  u_lastLogin :: "date option"

text \<open>
  Modelled from the spec: \<^verbatim>\<open>user.isLocked()\<close> of \<^verbatim>\<open>models/User.js\<close>, which is not
  among the source files. An account is locked while lock timestamp plus lock duration
  is after now; \<open>lockDuration\<close> is a parameter, the specification gives no value.
\<close>

definition isLocked :: "int \<Rightarrow> user \<Rightarrow> date \<Rightarrow> bool" where
  "isLocked lockDuration u now =
     (case u_lockedAt u of None \<Rightarrow> False | Some t \<Rightarrow> t + lockDuration > now)"

text \<open>
  Modelled from the spec: \<^verbatim>\<open>user.comparePassword(password)\<close> of
  \<^verbatim>\<open>models/User.js\<close>, the credential check: the supplied secret is the account's.
\<close>

definition comparePassword :: "user \<Rightarrow> string \<Rightarrow> bool" where
  "comparePassword u password = (u_password u = password)"

text \<open>
  Modelled from the spec: the threshold of consecutive failures after which an account
  is locked (a constant of \<^verbatim>\<open>models/User.js\<close>): five.
\<close>

definition maxLoginAttempts :: nat where
  "maxLoginAttempts = 5"

text \<open>
  Modelled from the spec: \<^verbatim>\<open>user.incLoginAttempts()\<close> of \<^verbatim>\<open>models/User.js\<close>. The
  failure counter is incremented; when it reaches the threshold the account becomes
  locked and the lock time is stamped. A lock whose duration has elapsed has returned
  the account to active with no attempts, so the count restarts from there.
\<close>

definition incLoginAttempts :: "int \<Rightarrow> user \<Rightarrow> date \<Rightarrow> user" where
  "incLoginAttempts lockDuration u now =
     (let elapsed = (case u_lockedAt u of None \<Rightarrow> False | Some t \<Rightarrow> t + lockDuration \<le> now);
          attempts = (if elapsed then 0 else u_loginAttempts u) + 1
      in if attempts \<ge> maxLoginAttempts
         then u\<lparr>u_loginAttempts := attempts, u_lockedAt := Some now\<rparr>
         else u\<lparr>u_loginAttempts := attempts,
                 u_lockedAt := (if elapsed then None else u_lockedAt u)\<rparr>)"

text \<open>
  Modelled from the spec: \<^verbatim>\<open>user.resetLoginAttempts()\<close> of \<^verbatim>\<open>models/User.js\<close>: on
  success the failure counter is reset to 0, and the account is active.
\<close>

definition resetLoginAttempts :: "user \<Rightarrow> user" where
  "resetLoginAttempts u = u\<lparr>u_loginAttempts := 0, u_lockedAt := None\<rparr>"

text \<open>
  The claims \<^verbatim>\<open>jwt.sign(payload, JWT_SECRET, { expiresIn: '24h' })\<close> signs: the
  payload, the issue time in seconds and the expiry 24 hours later. The signature
  itself is not modelled.
\<close>

record token =
  tk_id :: string
  tk_username :: string
  tk_role :: string
  tk_iat :: int
  tk_exp :: int

definition jwt_sign :: "date \<Rightarrow> string \<Rightarrow> string \<Rightarrow> string \<Rightarrow> token" where
  "jwt_sign now i username role =
     \<lparr>tk_id = i, tk_username = username, tk_role = role,
      tk_iat = now div 1000, tk_exp = now div 1000 + 24 * 60 * 60\<rparr>"

record login_user =
  lu_id :: string
  lu_username :: string
  lu_email :: "string option"
  lu_role :: string
  lu_profile :: "string option"

definition find_user :: "string \<Rightarrow> user list \<Rightarrow> user option" where
  "find_user username db = findOne (\<lambda>u. u_username u = username) db"

text \<open>
  \<^verbatim>\<open>POST /auth/login\<close> with \<^verbatim>\<open>username\<close> and \<^verbatim>\<open>password\<close> strings in the body.
  The hard-coded pair is answered before the store is read. For a stored account the
  lock is checked first, then the password; a mismatch counts a failed attempt, and a
  match resets the counter when it is positive, stamps \<^verbatim>\<open>lastLogin\<close> and saves.
\<close>

definition login ::
  "int \<Rightarrow> date \<Rightarrow> user list \<Rightarrow> string \<Rightarrow> string
     \<Rightarrow> user list \<times> (token \<times> login_user) response" where
  "login lockDuration now db username password =
     (if username = ''admin'' \<and> password = ''admin123''
      then (db, Reply 200 (jwt_sign now ''admin-user'' ''admin'' ''admin'',
                  \<lparr>lu_id = ''admin-user'', lu_username = ''admin'', lu_email = None,
                   lu_role = ''admin'', lu_profile = None\<rparr>))
      else (case find_user username db of
              None \<Rightarrow> (db, Failure 401 ''Invalid credentials'')
            | Some u \<Rightarrow>
                if isLocked lockDuration u now
                then (db, Failure 423
                        ''Account temporarily locked due to too many failed login attempts'')
                else if \<not> comparePassword u password
                then (save_doc u_id (incLoginAttempts lockDuration u now) db,
                      Failure 401 ''Invalid credentials'')
                else (let u1 = (if u_loginAttempts u > 0 then resetLoginAttempts u else u);
                          u2 = u1\<lparr>u_lastLogin := Some now\<rparr>
                      in (save_doc u_id u2 db,
                          Reply 200 (jwt_sign now (u_id u2) (u_username u2) (u_role u2),
                             \<lparr>lu_id = u_id u2, lu_username = u_username u2,
                              lu_email = Some (u_email u2), lu_role = u_role u2,
                              lu_profile = u_profile u2\<rparr>)))))"

text \<open>
  A sequence of login requests for one account, each a time and a supplied password,
  handled one after the other; the result is the collection they leave behind.
\<close>

fun login_all :: "int \<Rightarrow> user list \<Rightarrow> string \<Rightarrow> (date \<times> string) list \<Rightarrow> user list" where
  "login_all lockDuration db username [] = db"
| "login_all lockDuration db username ((now, password) # rest) =
     login_all lockDuration (fst (login lockDuration now db username password)) username rest"

section \<open>Concrete data for the worked examples\<close>

text \<open>A regular-expression engine that reads every pattern as a literal, ignoring case.\<close>

definition literal_rx :: regex where
  "literal_rx pat = Some (\<lambda>s. sublist (toLowerCase pat) (toLowerCase s))"

definition no_params :: testimonial_params where
  "no_params =
     \<lparr>tp_page = None, tp_limit = None, tp_active = None, tp_featured = None,
      tp_rating = None, tp_search = None, tp_sortBy = None, tp_sortOrder = None\<rparr>"

definition ann :: testimonial where
  "ann =
     \<lparr>t_id = ''65f000000000000000000001'', t_name = ''Ann'', t_company = ''Acme'',
      t_position = None, t_rating = 5, t_testimonial = Some ''Great work'', t_image = None,
      t_active = True, t_featured = False, t_projectType = None, t_source = ''website'',
      t_verified = False, t_createdAt = 10, t_updatedAt = 10\<rparr>"

definition bob :: testimonial where
  "bob =
     \<lparr>t_id = ''65f000000000000000000002'', t_name = ''Bob'', t_company = ''Bolt'',
      t_position = None, t_rating = 4, t_testimonial = None, t_image = None,
      t_active = True, t_featured = True, t_projectType = None, t_source = ''email'',
      t_verified = False, t_createdAt = 20, t_updatedAt = 20\<rparr>"

definition cy :: testimonial where
  "cy =
     \<lparr>t_id = ''65f000000000000000000003'', t_name = ''Cy'', t_company = ''Core'',
      t_position = None, t_rating = 5, t_testimonial = None, t_image = None,
      t_active = False, t_featured = False, t_projectType = None, t_source = ''phone'',
      t_verified = False, t_createdAt = 30, t_updatedAt = 30\<rparr>"

definition body_with_rating :: "rat \<Rightarrow> testimonial_body" where
  "body_with_rating r =
     \<lparr>tb_name = Some ''Dee'', tb_company = Some ''Dune'', tb_position = None,
      tb_rating = Some r, tb_testimonial = None, tb_image = None, tb_active = None,
      tb_featured = None, tb_projectType = None, tb_source = None, tb_verified = None\<rparr>"

definition dana :: subscriber where
  "dana =
     \<lparr>ns_id = ''65f0000000000000000000a1'', ns_email = ''dana@example.com'', ns_name = None,
      ns_unsubscribed = False, ns_unsubscribedAt = None, ns_source = ''website'',
      ns_frequency = ''weekly'', ns_categories = [], ns_createdAt = 10, ns_updatedAt = 10\<rparr>"

definition eli :: subscriber where
  "eli =
     \<lparr>ns_id = ''65f0000000000000000000a2'', ns_email = ''eli@example.com'', ns_name = None,
      ns_unsubscribed = True, ns_unsubscribedAt = Some 40, ns_source = ''website'',
      ns_frequency = ''weekly'', ns_categories = [], ns_createdAt = 20, ns_updatedAt = 40\<rparr>"

definition march_issue :: newsletter_upload where
  "march_issue =
     \<lparr>nu_id = ''65f0000000000000000000b1'', nu_name = ''March'', nu_category = ''monthly'',
      nu_date = 5, nu_filename = ''newsletter-5-17.pdf'', nu_originalName = ''march.pdf'',
      nu_fileSize = Some 1024, nu_downloadCount = 0, nu_active = True,
      nu_createdAt = 5, nu_updatedAt = 5\<rparr>"




definition notes_txt :: upload_file where
  "notes_txt = \<lparr>uf_originalname = ''notes.txt'', uf_mimetype = ''text/plain'', uf_bytes = ''hello''\<rparr>"

definition fay :: user where
  "fay =
     \<lparr>u_id = ''65f0000000000000000000d1'', u_username = ''fay'', u_email = ''fay@example.com'',
      u_password = ''s3cret'', u_role = ''admin'', u_profile = None, u_active = True,
      u_loginAttempts = 0, u_lockedAt = None, u_lastLogin = None\<rparr>"

section \<open>Facts about the store and the primitives\<close>

lemma findOneAndUpdate_found:
  "find p db = Some d \<Longrightarrow> p (f d) \<Longrightarrow>
     snd (findOneAndUpdate p f db) = Some (f d) \<and> find p (fst (findOneAndUpdate p f db)) = Some (f d)"
  by (induction db) (auto split: prod.splits if_splits)

lemma findOneAndUpdate_missing:
  "find p db = None \<Longrightarrow> findOneAndUpdate p f db = (db, None)"
  by (induction db) (auto split: prod.splits if_splits)

lemma find_save_doc:
  "find p db = Some d \<Longrightarrow> p d' \<Longrightarrow> idf d' = idf d \<Longrightarrow> find p (save_doc idf d' db) = Some d'"
  by (induction db) (auto simp: save_doc_def split: if_splits)

lemma set_insert_by: "set (insert_by le x ys) = insert x (set ys)"
  by (induction ys) auto

lemma set_sort_by: "set (sort_by le xs) = set xs"
  by (induction xs) (auto simp: sort_by_def set_insert_by)

lemma length_insert_by: "length (insert_by le x ys) = Suc (length ys)"
  by (induction ys) auto

lemma length_sort_by: "length (sort_by le xs) = length xs"
  by (induction xs) (auto simp: sort_by_def length_insert_by)













lemma set_sort_docs: "sort_docs field spec docs = Some ds \<Longrightarrow> set ds = set docs"
  by (cases spec) (auto simp: sort_docs_def set_sort_by split: if_splits)

lemma length_sort_docs: "sort_docs field spec docs = Some ds \<Longrightarrow> length ds = length docs"
  by (cases spec) (auto simp: sort_docs_def length_sort_by split: if_splits)

lemma limit_docs_subset: "limit_docs n docs = Some ds \<Longrightarrow> set ds \<subseteq> set docs"
  by (auto simp: limit_docs_def split: option.splits if_splits dest: in_set_takeD)

lemma skip_docs_subset: "skip_docs n docs = Some ds \<Longrightarrow> set ds \<subseteq> set docs"
  by (auto simp: skip_docs_def split: option.splits if_splits dest: in_set_dropD)

lemma char_eq_char_of: "(c = char_of (n::nat)) \<longleftrightarrow> (of_char c = n mod 256)"
  by (metis char_of_char of_char_of char_of_mod_256)

lemma eval_object_id:
  "is_object_id s = (length s = 24 \<and> list_all (\<lambda>c. radix_digit 16 c) s)"
  by (simp add: is_object_id_def)

lemmas eval_parseInt =
  parseInt_def is_space_def radix_digit_def digit_val_def digits_value_def default_to_def truthy_def

lemmas eval_listing =
  testimonial_find_def rating_pred_def search_pred_def flag_pred_def sort_spec_def
  sort_docs_def sort_le_def field_path_ok_def sort_by_def limit_docs_def skip_docs_def
  testimonial_field_def bson_le_def

section \<open>Contact submissions: marking as replied\<close>

text \<open>
  C4. For every existing contact submission, the mark-replied update with
  \<^verbatim>\<open>replied = true\<close> succeeds, and the record stored under that id afterwards is the old
  one with \<open>replied\<close> and \<open>read\<close> both true (and \<open>updatedAt\<close> stamped): one update
  of the store sets both fields.
\<close>

theorem mark_replied_true_sets_read:
  assumes "is_object_id i" and "findById cs_id i db = Some s"
  shows "\<exists>db' msg s'. mark_replied now db i (Some True) = (db', Reply 200 (msg, s'))
           \<and> findById cs_id i db' = Some s'
           \<and> s' = s\<lparr>cs_replied := True, cs_read := True, cs_updatedAt := now\<rparr>
           \<and> cs_replied s' \<and> cs_read s'"
proof -
  let ?p = "\<lambda>d. cs_id d = i"
  let ?f = "\<lambda>d. d\<lparr>cs_replied := True, cs_read := True, cs_updatedAt := now\<rparr>"
  from assms(2) have found: "find ?p db = Some s"
    by (simp add: findById_def findOne_def)
  then have "cs_id s = i"
    by (auto simp: find_Some_iff)
  then have "?p (?f s)" by simp
  from findOneAndUpdate_found [of ?p db s ?f, OF found this]
  obtain db' where upd: "findOneAndUpdate ?p ?f db = (db', Some (?f s))"
    and stored: "find ?p db' = Some (?f s)"
    by (cases "findOneAndUpdate ?p ?f db") auto
  from assms(1) upd have "mark_replied now db i (Some True)
      = (db', Reply 200 (''Submission marked as replied'', ?f s))"
    by (simp add: mark_replied_def)
  with stored show ?thesis
    by (simp add: findById_def findOne_def)
qed

theorem mark_replied_true_sets_read_witness:
  "\<exists>db' msg s'. mark_replied 99
       [\<lparr>cs_id = ''0123456789abcdef01234567'', cs_name = ''Ann'', cs_email = ''ann@example.com'',
         cs_phone = None, cs_subject = ''Hi'', cs_message = ''Hello'', cs_read = False,
         cs_replied = False, cs_priority = ''medium'', cs_source = ''website'',
         cs_createdAt = 1, cs_updatedAt = 1\<rparr>]
       ''0123456789abcdef01234567'' (Some True) = (db', Reply 200 (msg, s'))
     \<and> cs_replied s' \<and> cs_read s'"
proof -
  let ?s = "\<lparr>cs_id = ''0123456789abcdef01234567'', cs_name = ''Ann'', cs_email = ''ann@example.com'',
         cs_phone = None, cs_subject = ''Hi'', cs_message = ''Hello'', cs_read = False,
         cs_replied = False, cs_priority = ''medium'', cs_source = ''website'',
         cs_createdAt = 1, cs_updatedAt = 1\<rparr>"
  have a: "is_object_id ''0123456789abcdef01234567''"
    by (simp add: is_object_id_def radix_digit_def digit_val_def)
  have b: "findById cs_id ''0123456789abcdef01234567'' [?s] = Some ?s"
    by (simp add: findById_def findOne_def)
  from mark_replied_true_sets_read [OF a b, of 99] show ?thesis
    by blast
qed

text \<open>
  C10. On an existing contact submission the mark-replied endpoint sets \<open>read\<close> to
  true whatever the body carries: with \<^verbatim>\<open>replied = false\<close> (and with no
  \<^verbatim>\<open>replied\<close> at all) the stored record ends with \<open>read\<close> true, while \<open>replied\<close>
  takes the body's value.
\<close>

theorem mark_replied_always_reads:
  assumes "is_object_id i" and "findById cs_id i db = Some s"
  shows "\<exists>db' msg s'. mark_replied now db i r = (db', Reply 200 (msg, s'))
           \<and> findById cs_id i db' = Some s'
           \<and> cs_read s'
           \<and> cs_replied s' = (case r of None \<Rightarrow> True | Some b \<Rightarrow> b)"
proof -
  define rv where "rv = (case r of None \<Rightarrow> True | Some b \<Rightarrow> b)"
  let ?p = "\<lambda>d. cs_id d = i"
  let ?f = "\<lambda>d. d\<lparr>cs_replied := rv, cs_read := True, cs_updatedAt := now\<rparr>"
  from assms(2) have found: "find ?p db = Some s"
    by (simp add: findById_def findOne_def)
  then have "cs_id s = i"
    by (auto simp: find_Some_iff)
  then have "?p (?f s)" by simp
  from findOneAndUpdate_found [of ?p db s ?f, OF found this]
  obtain db' where upd: "findOneAndUpdate ?p ?f db = (db', Some (?f s))"
    and stored: "find ?p db' = Some (?f s)"
    by (cases "findOneAndUpdate ?p ?f db") auto
  from assms(1) upd have "mark_replied now db i r
      = (db', Reply 200 (''Submission marked as '' @ (if rv then ''replied'' else ''not replied''), ?f s))"
    by (simp add: mark_replied_def rv_def)
  with stored show ?thesis
    by (simp add: findById_def findOne_def rv_def)
qed

theorem mark_replied_always_reads_witness:
  "\<exists>db' msg s'. mark_replied 99
       [\<lparr>cs_id = ''0123456789abcdef01234567'', cs_name = ''Ann'', cs_email = ''ann@example.com'',
         cs_phone = None, cs_subject = ''Hi'', cs_message = ''Hello'', cs_read = False,
         cs_replied = True, cs_priority = ''medium'', cs_source = ''website'',
         cs_createdAt = 1, cs_updatedAt = 1\<rparr>]
       ''0123456789abcdef01234567'' (Some False) = (db', Reply 200 (msg, s'))
     \<and> cs_read s' \<and> \<not> cs_replied s'"
proof -
  let ?s = "\<lparr>cs_id = ''0123456789abcdef01234567'', cs_name = ''Ann'', cs_email = ''ann@example.com'',
         cs_phone = None, cs_subject = ''Hi'', cs_message = ''Hello'', cs_read = False,
         cs_replied = True, cs_priority = ''medium'', cs_source = ''website'',
         cs_createdAt = 1, cs_updatedAt = 1\<rparr>"
  have a: "is_object_id ''0123456789abcdef01234567''"
    by (simp add: is_object_id_def radix_digit_def digit_val_def)
  have b: "findById cs_id ''0123456789abcdef01234567'' [?s] = Some ?s"
    by (simp add: findById_def findOne_def)
  from mark_replied_always_reads [OF a b, of 99 "Some False"] show ?thesis
    by auto
qed

section \<open>Testimonials: the listings and the rating range\<close>

lemma testimonial_find_active:
  "testimonial_find rx f db = Some found \<Longrightarrow> tf_active f = Some True \<Longrightarrow> t \<in> set found
     \<Longrightarrow> t_active t \<and> t \<in> set db"
  by (auto simp: testimonial_find_def flag_pred_def split: option.splits)

lemma testimonial_find_rating_is:
  assumes "tp_rating q = Some rs" and "parseInt rs = Some r"
  shows "testimonial_find rx (admin_query q) db
         = testimonial_find rx (admin_query (q\<lparr>tp_rating := None\<rparr>))
             (filter (\<lambda>t. t_rating t = of_int r) db)"
proof -
  from assms(2) have "rs \<noteq> []"
    by (auto simp: parseInt_def)
  with assms show ?thesis
    by (auto simp: testimonial_find_def admin_query_def rating_pred_def truthy_def default_to_def
          split: option.splits intro: filter_cong)
qed

lemma testimonial_find_rating_gte:
  assumes "tp_rating q = Some rs" and "parseInt rs = Some r"
  shows "testimonial_find rx (public_query q) db
         = testimonial_find rx (public_query (q\<lparr>tp_rating := None\<rparr>))
             (filter (\<lambda>t. of_int r \<le> t_rating t) db)"
proof -
  from assms(2) have "rs \<noteq> []"
    by (auto simp: parseInt_def)
  with assms show ?thesis
    by (auto simp: testimonial_find_def public_query_def rating_pred_def truthy_def default_to_def
          split: option.splits intro: filter_cong)
qed

lemma get_testimonials_all_subset:
  "get_testimonials_all rx db q = Reply st ts \<Longrightarrow> set ts \<subseteq> set db"
  by (auto simp: get_testimonials_all_def Let_def testimonial_find_def
        split: option.splits dest!: limit_docs_subset skip_docs_subset set_sort_docs)

lemma get_testimonials_subset:
  "get_testimonials rx db q = Reply st ts \<Longrightarrow> set ts \<subseteq> set db"
  by (auto simp: get_testimonials_def Let_def testimonial_find_def
        split: option.splits dest!: limit_docs_subset set_sort_docs)

text \<open>
  C1, as amended. A rating parameter that \<^verbatim>\<open>parseInt\<close> reads as \<open>r\<close> restricts the
  admin listing to exactly the records with rating equal to \<open>r\<close>, and the public
  listing to exactly the records with rating at least \<open>r\<close>: each listing answers as
  the same request without the parameter would on the collection restricted to those
  records, so the request's other filters, the forced \<open>active\<close> filter of the public
  listing, the sort order and the page still apply. Every record returned has rating
  \<open>r\<close> (admin), at least \<open>r\<close> (public).
\<close>

theorem rating_filter_by_endpoint:
  assumes "tp_rating q = Some rs" and "parseInt rs = Some r"
  shows "get_testimonials_all rx db q
           = get_testimonials_all rx (filter (\<lambda>t. t_rating t = of_int r) db) (q\<lparr>tp_rating := None\<rparr>)
         \<and> get_testimonials rx db q
           = get_testimonials rx (filter (\<lambda>t. of_int r \<le> t_rating t) db) (q\<lparr>tp_rating := None\<rparr>)
         \<and> (\<forall>st ts. get_testimonials_all rx db q = Reply st ts
               \<longrightarrow> list_all (\<lambda>t. t_rating t = of_int r) ts)
         \<and> (\<forall>st ts. get_testimonials rx db q = Reply st ts
               \<longrightarrow> list_all (\<lambda>t. of_int r \<le> t_rating t) ts)"
proof -
  have admin: "get_testimonials_all rx db q
      = get_testimonials_all rx (filter (\<lambda>t. t_rating t = of_int r) db) (q\<lparr>tp_rating := None\<rparr>)"
    by (simp add: get_testimonials_all_def testimonial_find_rating_is [OF assms])
  have public: "get_testimonials rx db q
      = get_testimonials rx (filter (\<lambda>t. of_int r \<le> t_rating t) db) (q\<lparr>tp_rating := None\<rparr>)"
    by (simp add: get_testimonials_def testimonial_find_rating_gte [OF assms])
  have "list_all (\<lambda>t. t_rating t = of_int r) ts"
    if "get_testimonials_all rx db q = Reply st ts" for st ts
    using get_testimonials_all_subset [of rx "filter (\<lambda>t. t_rating t = of_int r) db" "q\<lparr>tp_rating := None\<rparr>" st ts] that admin
    by (auto simp: list_all_iff)
  moreover have "list_all (\<lambda>t. of_int r \<le> t_rating t) ts"
    if "get_testimonials rx db q = Reply st ts" for st ts
    using get_testimonials_subset [of rx "filter (\<lambda>t. of_int r \<le> t_rating t) db" "q\<lparr>tp_rating := None\<rparr>" st ts] that public
    by (auto simp: list_all_iff)
  ultimately show ?thesis
    using admin public by blast
qed

theorem rating_filter_by_endpoint_witness:
  "get_testimonials_all literal_rx [ann, bob, cy] (no_params\<lparr>tp_rating := Some ''4''\<rparr>) = Reply 200 [bob]
   \<and> get_testimonials literal_rx [ann, bob, cy] (no_params\<lparr>tp_rating := Some ''4''\<rparr>) = Reply 200 [bob, ann]"
proof -
  let ?q = "no_params\<lparr>tp_rating := Some ''4''\<rparr>"
  have a: "tp_rating ?q = Some ''4''"
    by simp
  have b: "parseInt ''4'' = Some 4"
    by (simp add: eval_parseInt)
  have f1: "filter (\<lambda>t. t_rating t = of_int 4) [ann, bob, cy] = [bob]"
    by (simp add: ann_def bob_def cy_def)
  have f2: "filter (\<lambda>t. of_int 4 \<le> t_rating t) [ann, bob, cy] = [ann, bob, cy]"
    by (simp add: ann_def bob_def cy_def)
  have r1: "get_testimonials_all literal_rx [bob] (?q\<lparr>tp_rating := None\<rparr>) = Reply 200 [bob]"
    by (simp add: get_testimonials_all_def admin_query_def no_params_def eval_parseInt eval_listing)
  have r2: "get_testimonials literal_rx [ann, bob, cy] (?q\<lparr>tp_rating := None\<rparr>) = Reply 200 [bob, ann]"
    by (simp add: get_testimonials_def public_query_def no_params_def eval_parseInt eval_listing
          ann_def bob_def cy_def)
  note inst = rating_filter_by_endpoint [OF a b, of literal_rx "[ann, bob, cy]"]
  from inst have "get_testimonials_all literal_rx [ann, bob, cy] ?q
      = get_testimonials_all literal_rx (filter (\<lambda>t. t_rating t = of_int 4) [ann, bob, cy]) (?q\<lparr>tp_rating := None\<rparr>)"
    by (rule conjunct1)
  then have c1: "get_testimonials_all literal_rx [ann, bob, cy] ?q = Reply 200 [bob]"
    unfolding f1 r1 .
  from inst have "get_testimonials literal_rx [ann, bob, cy] ?q
      = get_testimonials literal_rx (filter (\<lambda>t. of_int 4 \<le> t_rating t) [ann, bob, cy]) (?q\<lparr>tp_rating := None\<rparr>)"
    by (rule conjunct2 [THEN conjunct1])
  then have c2: "get_testimonials literal_rx [ann, bob, cy] ?q = Reply 200 [bob, ann]"
    unfolding f2 r2 .
  from c1 c2 show ?thesis ..
qed

text \<open>
  The claim as written fails: asked for rating 4, the public listing does not return an
  inactive record of rating 5, so the records returned are not all the records with
  rating at least 4.
\<close>

theorem public_rating_listing_counterexample:
  "get_testimonials literal_rx [cy] (no_params\<lparr>tp_rating := Some ''4''\<rparr>) = Reply 200 []
   \<and> 4 \<le> t_rating cy"
  by (simp add: get_testimonials_def public_query_def no_params_def eval_parseInt eval_listing cy_def)

text \<open>
  C2. Whatever parameters the caller sends to the public listing, every record of the
  response is a stored record with \<open>active\<close> true.
\<close>

theorem public_listing_only_active:
  assumes "get_testimonials rx db q = Reply st ts" and "t \<in> set ts"
  shows "t_active t \<and> t \<in> set db"
proof -
  from assms(1) obtain found ordered where
    f: "testimonial_find rx (public_query q) db = Some found"
    and s: "sort_docs testimonial_field (sort_spec (tp_sortBy q) (tp_sortOrder q)) found
              = Some ordered"
    and l: "limit_docs (parseInt (default_to ''10'' (tp_limit q))) ordered = Some ts"
    by (auto simp: get_testimonials_def Let_def split: option.splits)
  from limit_docs_subset [OF l] assms(2) have "t \<in> set found"
    by (auto simp: set_sort_docs [OF s])
  with testimonial_find_active [OF f] show ?thesis
    by (simp add: public_query_def)
qed

theorem public_listing_only_active_witness:
  "get_testimonials literal_rx [ann, bob, cy]
     (no_params\<lparr>tp_active := Some ''false'', tp_limit := Some ''5'', tp_sortOrder := Some ''asc''\<rparr>)
     = Reply 200 [ann, bob]
   \<and> t_active ann \<and> ann \<in> set [ann, bob, cy] \<and> \<not> t_active cy"
proof -
  have r: "get_testimonials literal_rx [ann, bob, cy]
     (no_params\<lparr>tp_active := Some ''false'', tp_limit := Some ''5'', tp_sortOrder := Some ''asc''\<rparr>)
     = Reply 200 [ann, bob]"
    by (simp add: get_testimonials_def public_query_def no_params_def eval_parseInt eval_listing
          ann_def bob_def cy_def)
  have m: "ann \<in> set [ann, bob]"
    by simp
  from public_listing_only_active [OF r m] r show ?thesis
    by (simp add: cy_def)
qed

lemma create_testimonial_cases:
  "create_testimonial now oid db b =
     (if tb_name b = None \<or> tb_company b = None \<or> tb_rating b = None
         \<or> tb_name b = Some [] \<or> tb_company b = Some [] \<or> tb_rating b = Some 0
      then (db, Failure 400 ''Missing required fields: name, company, and rating are required'')
      else if default_to 0 (tb_rating b) < 1 \<or> default_to 0 (tb_rating b) > 5
      then (db, Failure 400 ''Rating must be between 1 and 5'')
      else if testimonial_valid (new_testimonial now oid (default_to [] (tb_name b))
                 (default_to [] (tb_company b)) (default_to 0 (tb_rating b)) b)
      then (db @ [new_testimonial now oid (default_to [] (tb_name b))
                 (default_to [] (tb_company b)) (default_to 0 (tb_rating b)) b],
            Reply 201 (''Testimonial created successfully'',
               new_testimonial now oid (default_to [] (tb_name b))
                 (default_to [] (tb_company b)) (default_to 0 (tb_rating b)) b))
      else (db, Failure 500 ''Failed to create testimonial''))"
proof (cases "tb_name b")
  case None
  then show ?thesis by (simp add: create_testimonial_def)
next
  case n: (Some name)
  show ?thesis
  proof (cases "tb_company b")
    case None
    with n show ?thesis by (simp add: create_testimonial_def)
  next
    case c: (Some company)
    show ?thesis
    proof (cases "tb_rating b")
      case None
      with n c show ?thesis by (simp add: create_testimonial_def)
    next
      case (Some rating)
      with n c show ?thesis
        by (simp add: create_testimonial_def default_to_def Let_def)
    qed
  qed
qed

text \<open>
  C6. A create request whose rating lies outside \<open>[1, 5]\<close> (0 and 6 among them) is
  answered with status 400 and leaves the collection as it was; and whenever a create
  succeeds, the record appended to the collection has its rating in \<open>[1, 5]\<close>.
\<close>

theorem create_testimonial_rating_range:
  "(tb_rating b = Some r \<and> (r < 1 \<or> r > 5)
      \<longrightarrow> (\<exists>msg. create_testimonial now oid db b = (db, Failure 400 msg)))
   \<and> (create_testimonial now oid db b = (db', Reply st (m, t))
      \<longrightarrow> 1 \<le> t_rating t \<and> t_rating t \<le> 5 \<and> db' = db @ [t])"
proof (intro conjI impI)
  assume a: "tb_rating b = Some r \<and> (r < 1 \<or> r > 5)"
  then have "default_to 0 (tb_rating b) < 1 \<or> default_to 0 (tb_rating b) > 5"
    by (simp add: default_to_def)
  then show "\<exists>msg. create_testimonial now oid db b = (db, Failure 400 msg)"
    by (simp add: create_testimonial_cases)
next
  assume ok: "create_testimonial now oid db b = (db', Reply st (m, t))"
  then have "testimonial_valid t \<and> db' = db @ [t]"
    unfolding create_testimonial_cases by (auto split: if_splits)
  then show "1 \<le> t_rating t" and "t_rating t \<le> 5" and "db' = db @ [t]"
    by (simp_all add: testimonial_valid_def)
qed

theorem create_testimonial_rating_range_witness:
  "(\<exists>msg. create_testimonial 50 ''65f000000000000000000009'' [ann] (body_with_rating 0) = ([ann], Failure 400 msg))
   \<and> (\<exists>msg. create_testimonial 50 ''65f000000000000000000009'' [ann] (body_with_rating 6) = ([ann], Failure 400 msg))
   \<and> (\<exists>db' m t. create_testimonial 50 ''65f000000000000000000009'' [ann] (body_with_rating 3) = (db', Reply 201 (m, t))
        \<and> 1 \<le> t_rating t \<and> t_rating t \<le> 5 \<and> db' = [ann] @ [t])"
proof -
  let ?t = "new_testimonial 50 ''65f000000000000000000009'' ''Dee'' ''Dune'' 3 (body_with_rating 3)"
  have v: "testimonial_valid ?t"
    by (simp add: new_testimonial_def testimonial_valid_def body_with_rating_def
          trim_def is_space_def default_to_def)
  have ok: "create_testimonial 50 ''65f000000000000000000009'' [ann] (body_with_rating 3)
      = ([ann] @ [?t], Reply 201 (''Testimonial created successfully'', ?t))"
    using v by (simp add: create_testimonial_cases body_with_rating_def default_to_def)
  have r0: "tb_rating (body_with_rating 0) = Some 0 \<and> ((0::rat) < 1 \<or> (0::rat) > 5)"
    by (simp add: body_with_rating_def)
  have r6: "tb_rating (body_with_rating 6) = Some 6 \<and> ((6::rat) < 1 \<or> (6::rat) > 5)"
    by (simp add: body_with_rating_def)
  have a: "\<exists>msg. create_testimonial 50 ''65f000000000000000000009'' [ann] (body_with_rating 0) = ([ann], Failure 400 msg)"
    using create_testimonial_rating_range [of "body_with_rating 0" 0 50 "''65f000000000000000000009''" "[ann]"] r0
    by blast
  have b: "\<exists>msg. create_testimonial 50 ''65f000000000000000000009'' [ann] (body_with_rating 6) = ([ann], Failure 400 msg)"
    using create_testimonial_rating_range [of "body_with_rating 6" 6 50 "''65f000000000000000000009''" "[ann]"] r6
    by blast
  have c: "1 \<le> t_rating ?t \<and> t_rating ?t \<le> 5 \<and> [ann] @ [?t] = [ann] @ [?t]"
    using create_testimonial_rating_range [of "body_with_rating 3" 3 50 "''65f000000000000000000009''" "[ann]"
        "[ann] @ [?t]" 201 "''Testimonial created successfully''" ?t] ok
    by blast
  from a b c ok show ?thesis
    by blast
qed
section \<open>Newsletter: subscribing again and counting downloads\<close>

text \<open>
  C5. When the email of a subscribe request is already in the store: if that subscriber
  is not unsubscribed, the request is answered 400 ``Email is already subscribed'' and
  the collection is unchanged; if the subscriber is unsubscribed, the request is
  answered 200, and the record now stored for that email has \<open>unsubscribed\<close> false
  and no \<open>unsubscribedAt\<close>.
\<close>

theorem subscribe_existing_email:
  assumes "e \<noteq> []" and "find_subscriber e db = Some sub"
  shows "(\<not> ns_unsubscribed sub
            \<longrightarrow> subscribe now oid db (Some e) name source = (db, Failure 400 ''Email is already subscribed''))
         \<and> (ns_unsubscribed sub
            \<longrightarrow> (\<exists>db' msg sub'. subscribe now oid db (Some e) name source = (db', Reply 200 (msg, sub'))
                   \<and> sub' = sub\<lparr>ns_unsubscribed := False, ns_unsubscribedAt := None, ns_updatedAt := now\<rparr>
                   \<and> find_subscriber e db' = Some sub'
                   \<and> \<not> ns_unsubscribed sub' \<and> ns_unsubscribedAt sub' = None))"
proof (intro conjI impI)
  assume "\<not> ns_unsubscribed sub"
  with assms show "subscribe now oid db (Some e) name source
      = (db, Failure 400 ''Email is already subscribed'')"
    by (simp add: subscribe_def truthy_def default_to_def)
next
  assume u: "ns_unsubscribed sub"
  let ?sub' = "sub\<lparr>ns_unsubscribed := False, ns_unsubscribedAt := None, ns_updatedAt := now\<rparr>"
  let ?p = "\<lambda>d. ns_email d = email_setters e"
  from assms(2) have found: "find ?p db = Some sub"
    by (simp add: find_subscriber_def findOne_def)
  then have "?p sub"
    by (auto simp: find_Some_iff)
  then have "?p ?sub'" by simp
  from find_save_doc [of ?p db sub ?sub' ns_id, OF found this]
  have stored: "find_subscriber e (save_doc ns_id ?sub' db) = Some ?sub'"
    by (simp add: find_subscriber_def findOne_def)
  from assms u have "subscribe now oid db (Some e) name source
      = (save_doc ns_id ?sub' db, Reply 200 (''Successfully resubscribed to newsletter'', ?sub'))"
    by (simp add: subscribe_def truthy_def default_to_def Let_def)
  with stored show "\<exists>db' msg sub'. subscribe now oid db (Some e) name source = (db', Reply 200 (msg, sub'))
                   \<and> sub' = ?sub'
                   \<and> find_subscriber e db' = Some sub'
                   \<and> \<not> ns_unsubscribed sub' \<and> ns_unsubscribedAt sub' = None"
    by simp
qed

theorem subscribe_existing_email_witness:
  "subscribe 99 ''65f0000000000000000000a9'' [dana, eli] (Some ''Dana@Example.com'') None None
     = ([dana, eli], Failure 400 ''Email is already subscribed'')
   \<and> (\<exists>db' msg sub'. subscribe 99 ''65f0000000000000000000a9'' [dana, eli] (Some ''eli@example.com'') None None
          = (db', Reply 200 (msg, sub'))
        \<and> find_subscriber ''eli@example.com'' db' = Some sub'
        \<and> \<not> ns_unsubscribed sub' \<and> ns_unsubscribedAt sub' = None)"
proof -
  have n1: "''Dana@Example.com'' \<noteq> []" by simp
  have n2: "''eli@example.com'' \<noteq> []" by simp
  have f1: "find_subscriber ''Dana@Example.com'' [dana, eli] = Some dana"
    by (simp add: find_subscriber_def findOne_def email_setters_def trim_def is_space_def
          toLowerCase_def lower_char_def char_eq_char_of dana_def eli_def)
  have f2: "find_subscriber ''eli@example.com'' [dana, eli] = Some eli"
    by (simp add: find_subscriber_def findOne_def email_setters_def trim_def is_space_def
          toLowerCase_def lower_char_def char_eq_char_of dana_def eli_def)
  have d: "\<not> ns_unsubscribed dana" by (simp add: dana_def)
  have e: "ns_unsubscribed eli" by (simp add: eli_def)
  from subscribe_existing_email [OF n1 f1, of 99 "''65f0000000000000000000a9''" None None] d
  have a: "subscribe 99 ''65f0000000000000000000a9'' [dana, eli] (Some ''Dana@Example.com'') None None
     = ([dana, eli], Failure 400 ''Email is already subscribed'')"
    by blast
  from subscribe_existing_email [OF n2 f2, of 99 "''65f0000000000000000000a9''" None None] e
  have b: "\<exists>db' msg sub'. subscribe 99 ''65f0000000000000000000a9'' [dana, eli] (Some ''eli@example.com'') None None
          = (db', Reply 200 (msg, sub'))
        \<and> find_subscriber ''eli@example.com'' db' = Some sub'
        \<and> \<not> ns_unsubscribed sub' \<and> ns_unsubscribedAt sub' = None"
    by blast
  from a b show ?thesis ..
qed

text \<open>
  C7 does not hold of the handler: it increments and saves \<open>downloadCount\<close> before it
  looks for the file. With the file absent from the disk the request is answered 404
  ``File not found'', and the stored counter has gone from 0 to 1.
\<close>

theorem download_missing_file_still_counts:
  "download_newsletter 99 Map.empty [march_issue] ''65f0000000000000000000b1''
     = ([march_issue\<lparr>nu_downloadCount := 1, nu_updatedAt := 99\<rparr>], Failure 404 ''File not found'')
   \<and> nu_downloadCount march_issue = 0"
  by (simp add: download_newsletter_def eval_object_id radix_digit_def digit_val_def findById_def
        findOne_def save_doc_def pathExists_def newsletter_path_def march_issue_def Let_def)

section \<open>Blogs: the rejected upload and the page of the listing\<close>

text \<open>
  C8. An upload to the blog-image endpoint whose media type does not start with
  \<^verbatim>\<open>image/\<close> is refused by the file filter with the error ``Only image files are
  allowed!'' (the specification's InvalidFileType), and the disk is left exactly as it
  was.
\<close>

theorem non_image_upload_rejected:
  assumes "\<not> prefix ''image/'' (uf_mimetype file)"
  shows "upload_single extname now rnd files (Some file)
         = (files, Inl (Error ''Only image files are allowed!''))"
  using assms by (simp add: upload_single_def fileFilter_def)

theorem non_image_upload_rejected_witness:
  "upload_single (\<lambda>name. ''.txt'') 1700000000000 42 Map.empty (Some notes_txt)
     = (Map.empty, Inl (Error ''Only image files are allowed!''))"
proof -
  have "\<not> prefix ''image/'' (uf_mimetype notes_txt)"
    by (simp add: notes_txt_def)
  from non_image_upload_rejected [OF this] show ?thesis .
qed








section \<open>Authentication: a locked account stays locked\<close>

lemma login_locked:
  assumes "\<not> (username = ''admin'' \<and> password = ''admin123'')"
    and "find_user username db = Some u" and "isLocked D u now"
  shows "login D now db username password
         = (db, Failure 423 ''Account temporarily locked due to too many failed login attempts'')"
  using assms by (simp add: login_def)

lemma login_failed:
  assumes "username \<noteq> ''admin''" and "find_user username db = Some u"
    and "\<not> isLocked D u now" and "password \<noteq> u_password u"
  shows "fst (login D now db username password) = save_doc u_id (incLoginAttempts D u now) db"
    and "find_user username (save_doc u_id (incLoginAttempts D u now) db)
         = Some (incLoginAttempts D u now)"
proof -
  from assms show "fst (login D now db username password)
      = save_doc u_id (incLoginAttempts D u now) db"
    by (auto simp: login_def comparePassword_def)
  let ?p = "\<lambda>u. u_username u = username"
  from assms(2) have found: "find ?p db = Some u"
    by (simp add: find_user_def findOne_def)
  then have "?p u"
    by (auto simp: find_Some_iff)
  then have "?p (incLoginAttempts D u now)"
    by (simp add: incLoginAttempts_def Let_def)
  moreover have "u_id (incLoginAttempts D u now) = u_id u"
    by (simp add: incLoginAttempts_def Let_def)
  ultimately show "find_user username (save_doc u_id (incLoginAttempts D u now) db)
      = Some (incLoginAttempts D u now)"
    using find_save_doc [of ?p db u "incLoginAttempts D u now" u_id, OF found]
    by (simp add: find_user_def findOne_def)
qed

lemma failed_logins_count:
  assumes "username \<noteq> ''admin''"
  shows "find_user username db = Some u \<Longrightarrow> u_lockedAt u = None
     \<Longrightarrow> u_loginAttempts u + length atts < 5
     \<Longrightarrow> list_all (\<lambda>a. snd a \<noteq> u_password u) atts
     \<Longrightarrow> \<exists>u'. find_user username (login_all D db username atts) = Some u'
           \<and> u_lockedAt u' = None
           \<and> u_loginAttempts u' = u_loginAttempts u + length atts
           \<and> u_password u' = u_password u"
proof (induction atts arbitrary: db u)
  case Nil
  then show ?case by simp
next
  case (Cons a atts)
  obtain now pw where a: "a = (now, pw)"
    by (cases a)
  let ?u = "incLoginAttempts D u now"
  from Cons.prems have unlocked: "\<not> isLocked D u now" and wrong: "pw \<noteq> u_password u"
    by (simp_all add: isLocked_def a)
  from login_failed [OF assms Cons.prems(1) unlocked wrong]
  have step: "fst (login D now db username pw) = save_doc u_id ?u db"
    and found: "find_user username (save_doc u_id ?u db) = Some ?u"
    by simp_all
  from Cons.prems have u': "u_lockedAt ?u = None" "u_loginAttempts ?u = u_loginAttempts u + 1"
    "u_password ?u = u_password u"
    by (simp_all add: incLoginAttempts_def maxLoginAttempts_def Let_def)
  with Cons.prems have "u_loginAttempts ?u + length atts < 5"
    and "list_all (\<lambda>a. snd a \<noteq> u_password ?u) atts"
    by simp_all
  from Cons.IH [OF found u'(1) this]
  show ?case
    by (simp add: a step u')
qed

lemma login_all_append:
  "login_all D db username (xs @ ys) = login_all D (login_all D db username xs) username ys"
  by (induction xs arbitrary: db) auto

text \<open>
  C9. A login attempt that is not the hard-coded pair, for a stored account that is
  locked at the time of the attempt, is answered 423 and writes nothing, whatever the
  password. And after five consecutive failed logins of an account that started
  active with no failed attempts, the fifth at time \<open>t5\<close>, an attempt with the correct
  password at any time before \<open>t5 + lockDuration\<close> is answered 423 as well.
\<close>

theorem locked_account_rejected:
  "(\<not> (username = ''admin'' \<and> password = ''admin123'')
      \<and> find_user username db = Some u \<and> isLocked D u now
      \<longrightarrow> login D now db username password
            = (db, Failure 423 ''Account temporarily locked due to too many failed login attempts''))
   \<and> (username \<noteq> ''admin'' \<and> find_user username db = Some u
        \<and> u_loginAttempts u = 0 \<and> u_lockedAt u = None
        \<and> length earlier = 4 \<and> list_all (\<lambda>a. snd a \<noteq> u_password u) (earlier @ [(t5, p5)])
        \<and> now6 < t5 + D
      \<longrightarrow> (\<exists>u5. find_user username (login_all D db username (earlier @ [(t5, p5)])) = Some u5
                 \<and> isLocked D u5 now6 \<and> u_loginAttempts u5 = 5)
          \<and> login D now6 (login_all D db username (earlier @ [(t5, p5)])) username (u_password u)
            = (login_all D db username (earlier @ [(t5, p5)]),
               Failure 423 ''Account temporarily locked due to too many failed login attempts''))"
proof (intro conjI impI)
  assume "\<not> (username = ''admin'' \<and> password = ''admin123'')
      \<and> find_user username db = Some u \<and> isLocked D u now"
  then show "login D now db username password
      = (db, Failure 423 ''Account temporarily locked due to too many failed login attempts'')"
    by (simp add: login_locked)
next
  assume h: "username \<noteq> ''admin'' \<and> find_user username db = Some u
        \<and> u_loginAttempts u = 0 \<and> u_lockedAt u = None
        \<and> length earlier = 4 \<and> list_all (\<lambda>a. snd a \<noteq> u_password u) (earlier @ [(t5, p5)])
        \<and> now6 < t5 + D"
  let ?db4 = "login_all D db username earlier"
  let ?db5 = "login_all D db username (earlier @ [(t5, p5)])"
  from h have na: "username \<noteq> ''admin''" by simp
  from h have "u_loginAttempts u + length earlier < 5"
    and "list_all (\<lambda>a. snd a \<noteq> u_password u) earlier"
    by simp_all
  with failed_logins_count [OF na, of db u earlier D] h
  obtain u4 where u4: "find_user username ?db4 = Some u4" "u_lockedAt u4 = None"
    "u_loginAttempts u4 = 4" "u_password u4 = u_password u"
    by auto
  let ?u5 = "incLoginAttempts D u4 t5"
  from u4 have unlocked: "\<not> isLocked D u4 t5"
    by (simp add: isLocked_def)
  from h u4 have wrong: "p5 \<noteq> u_password u4"
    by simp
  from login_failed [OF na u4(1) unlocked wrong]
  have step: "fst (login D t5 ?db4 username p5) = save_doc u_id ?u5 ?db4"
    and found: "find_user username (save_doc u_id ?u5 ?db4) = Some ?u5"
    by simp_all
  have db5: "?db5 = save_doc u_id ?u5 ?db4"
    by (simp add: login_all_append step)
  from u4 have u5: "u_lockedAt ?u5 = Some t5" "u_loginAttempts ?u5 = 5"
    by (simp_all add: incLoginAttempts_def maxLoginAttempts_def Let_def)
  with h have locked: "isLocked D ?u5 now6"
    by (simp add: isLocked_def)
  from found locked u5 db5
  show "\<exists>u5. find_user username ?db5 = Some u5 \<and> isLocked D u5 now6 \<and> u_loginAttempts u5 = 5"
    by auto
  from na have "\<not> (username = ''admin'' \<and> u_password u = ''admin123'')"
    by simp
  from login_locked [OF this, of ?db5 ?u5 D now6] found locked db5
  show "login D now6 ?db5 username (u_password u)
      = (?db5, Failure 423 ''Account temporarily locked due to too many failed login attempts'')"
    by simp
qed

theorem locked_account_rejected_witness:
  "login 60000 6000
     (login_all 60000 [fay] ''fay''
        [(1000, ''a''), (2000, ''b''), (3000, ''c''), (4000, ''d''), (5000, ''e'')])
     ''fay'' ''s3cret''
   = ([fay\<lparr>u_loginAttempts := 5, u_lockedAt := Some 5000\<rparr>],
      Failure 423 ''Account temporarily locked due to too many failed login attempts'')
   \<and> login 60000 6000 [fay\<lparr>u_loginAttempts := 5, u_lockedAt := Some 5000\<rparr>] ''fay'' ''guess''
   = ([fay\<lparr>u_loginAttempts := 5, u_lockedAt := Some 5000\<rparr>],
      Failure 423 ''Account temporarily locked due to too many failed login attempts'')"
proof -
  let ?locked = "fay\<lparr>u_loginAttempts := 5, u_lockedAt := Some 5000\<rparr>"
  let ?earlier = "[(1000, ''a''), (2000, ''b''), (3000, ''c''), (4000, ''d'')] :: (date \<times> string) list"
  have run: "login_all 60000 [fay] ''fay'' (?earlier @ [(5000, ''e'')]) = [?locked]"
    by (simp add: login_def find_user_def findOne_def isLocked_def comparePassword_def
          incLoginAttempts_def maxLoginAttempts_def save_doc_def fay_def Let_def)
  have a: "\<not> (''fay'' = ''admin'' \<and> ''guess'' = ''admin123'')
      \<and> find_user ''fay'' [?locked] = Some ?locked \<and> isLocked 60000 ?locked 6000"
    by (simp add: find_user_def findOne_def isLocked_def fay_def)
  have b: "''fay'' \<noteq> ''admin'' \<and> find_user ''fay'' [fay] = Some fay
      \<and> u_loginAttempts fay = 0 \<and> u_lockedAt fay = None
      \<and> length ?earlier = 4
      \<and> list_all (\<lambda>a. snd a \<noteq> u_password fay) (?earlier @ [(5000, ''e'')])
      \<and> (6000 :: int) < 5000 + 60000"
    by (simp add: find_user_def findOne_def fay_def)
  have pw: "u_password fay = ''s3cret''"
    by (simp add: fay_def)
  from locked_account_rejected [where username = "''fay''" and password = "''guess''"
      and db = "[?locked]" and u = ?locked and D = 60000 and now = 6000] a
  have first: "login 60000 6000 [?locked] ''fay'' ''guess''
      = ([?locked], Failure 423 ''Account temporarily locked due to too many failed login attempts'')"
    by blast
  from locked_account_rejected [where username = "''fay''" and db = "[fay]" and u = fay
      and D = 60000 and earlier = ?earlier and ?t5.0 = 5000 and ?p5.0 = "''e''" and ?now6.0 = 6000] b
  have "login 60000 6000 (login_all 60000 [fay] ''fay'' (?earlier @ [(5000, ''e'')])) ''fay'' (u_password fay)
      = (login_all 60000 [fay] ''fay'' (?earlier @ [(5000, ''e'')]),
         Failure 423 ''Account temporarily locked due to too many failed login attempts'')"
    by blast
  then have second: "login 60000 6000 (login_all 60000 [fay] ''fay'' (?earlier @ [(5000, ''e'')])) ''fay'' ''s3cret''
      = ([?locked], Failure 423 ''Account temporarily locked due to too many failed login attempts'')"
    unfolding pw run .
  from second first show ?thesis
    by simp
qed

end
